theory Spec2Isabelle
  imports Main
begin

section \<open>Strings, characters and the Unicode tables\<close>

text \<open>
  A Python \<open>str\<close> is a sequence of Unicode code points; a code point is a natural number
  and a string is a list of them. ASCII literals of the source are written through
  \<open>of_ascii\<close>.
\<close>

type_synonym ustr = "nat list"

definition of_ascii :: "string \<Rightarrow> ustr" where
  "of_ascii s = map of_char s"

text \<open>
  \<open>str.isspace\<close>, which also decides what \<open>str.strip()\<close>, \<open>str.split()\<close> and the
  regular-expression class \<open>\s\<close> take for whitespace.
\<close>

definition isspace :: "nat \<Rightarrow> bool" where
  "isspace c \<longleftrightarrow>
     (0x09 \<le> c \<and> c \<le> 0x0D) \<or> (0x1C \<le> c \<and> c \<le> 0x20) \<or> c = 0x85 \<or> c = 0xA0 \<or>
     c = 0x1680 \<or> (0x2000 \<le> c \<and> c \<le> 0x200A) \<or> c = 0x2028 \<or> c = 0x2029 \<or>
     c = 0x202F \<or> c = 0x205F \<or> c = 0x3000"

text \<open>
  The character tables of the interpreter that the source reads through \<open>str.isalpha\<close>,
  \<open>str.lower\<close>, the class \<open>\w\<close> and \<open>re.IGNORECASE\<close> are not part of the repository:
  they are a parameter of the model. \<open>ieq p c\<close> says that the pattern character \<open>p\<close>
  matches the text character \<open>c\<close> when case is ignored.
\<close>

record unicode =
  isalpha :: "nat \<Rightarrow> bool"
  isalnum :: "nat \<Rightarrow> bool"
  lower :: "ustr \<Rightarrow> ustr"
  ieq :: "nat \<Rightarrow> nat \<Rightarrow> bool"

text \<open>
  The tables restricted to the three blocks the system works with (Basic Latin,
  Devanagari, Telugu); a code point outside them is answered like an unassigned one.
  This instance is used to evaluate the model on concrete texts of those blocks.
\<close>

definition ascii_lower :: "nat \<Rightarrow> nat" where
  "ascii_lower c = (if 0x41 \<le> c \<and> c \<le> 0x5A then c + 0x20 else c)"

definition ascii_letter :: "nat \<Rightarrow> bool" where
  "ascii_letter c \<longleftrightarrow> (0x41 \<le> c \<and> c \<le> 0x5A) \<or> (0x61 \<le> c \<and> c \<le> 0x7A)"

definition deva_letter :: "nat \<Rightarrow> bool" where
  "deva_letter c \<longleftrightarrow>
     (0x0904 \<le> c \<and> c \<le> 0x0939) \<or> c = 0x093D \<or> c = 0x0950 \<or>
     (0x0958 \<le> c \<and> c \<le> 0x0961) \<or> (0x0971 \<le> c \<and> c \<le> 0x097F)"

definition telu_letter :: "nat \<Rightarrow> bool" where
  "telu_letter c \<longleftrightarrow>
     (0x0C05 \<le> c \<and> c \<le> 0x0C0C) \<or> (0x0C0E \<le> c \<and> c \<le> 0x0C10) \<or>
     (0x0C12 \<le> c \<and> c \<le> 0x0C28) \<or> (0x0C2A \<le> c \<and> c \<le> 0x0C39) \<or> c = 0x0C3D \<or>
     (0x0C58 \<le> c \<and> c \<le> 0x0C5A) \<or> c = 0x0C5D \<or> c = 0x0C60 \<or> c = 0x0C61"

definition basic_numeric :: "nat \<Rightarrow> bool" where
  "basic_numeric c \<longleftrightarrow>
     (0x30 \<le> c \<and> c \<le> 0x39) \<or> (0x0966 \<le> c \<and> c \<le> 0x096F) \<or>
     (0x0C66 \<le> c \<and> c \<le> 0x0C6F) \<or> (0x0C78 \<le> c \<and> c \<le> 0x0C7E)"

definition basic_alpha :: "nat \<Rightarrow> bool" where
  "basic_alpha c \<longleftrightarrow> ascii_letter c \<or> deva_letter c \<or> telu_letter c"

definition basic_unicode :: unicode where
  "basic_unicode =
     \<lparr> isalpha = basic_alpha,
       isalnum = (\<lambda>c. basic_alpha c \<or> basic_numeric c),
       lower = map ascii_lower,
       ieq = (\<lambda>p c. ascii_lower p = ascii_lower c) \<rparr>"

subsection \<open>\<open>str.strip()\<close>\<close>

definition lstrip :: "ustr \<Rightarrow> ustr" where
  "lstrip s = dropWhile isspace s"

definition rstrip :: "ustr \<Rightarrow> ustr" where
  "rstrip s = rev (dropWhile isspace (rev s))"

definition strip :: "ustr \<Rightarrow> ustr" where
  "strip s = rstrip (lstrip s)"

section \<open>Errors\<close>

text \<open>
  The exceptions the modelled code can raise: a failure of the external translation
  engine (any exception out of the tokenizer or the model), and the \<open>IndexError\<close> of an
  index read on an empty string.
\<close>

datatype error = CapabilityFailure | IndexError

section \<open>Script classification (\<open>TranslationTester.detect_script\<close>)\<close>

datatype script = Latin | Devanagari | Telugu | Mixed | Unknown

text \<open>
  The quotients \<open>count / total > 0.5\<close> of the source are float divisions of two string
  lengths; for such operands the comparison holds exactly when \<open>2 * count > total\<close>.
\<close>

definition telugu_range :: "nat \<Rightarrow> bool" where
  "telugu_range c \<longleftrightarrow> 0x0C00 \<le> c \<and> c \<le> 0x0C7F"

definition devanagari_range :: "nat \<Rightarrow> bool" where
  "devanagari_range c \<longleftrightarrow> 0x0900 \<le> c \<and> c \<le> 0x097F"

definition detect_script :: "unicode \<Rightarrow> ustr \<Rightarrow> script" where
  "detect_script U text =
     (if text = [] then Unknown
      else
        let telugu_count = length (filter telugu_range text);
            hindi_count = length (filter devanagari_range text);
            latin_count = length (filter (\<lambda>c. isalpha U c \<and> c < 128) text);
            total = length (filter (isalpha U) text)
        in if total = 0 then Unknown
           else if 2 * telugu_count > total then Telugu
           else if 2 * hindi_count > total then Devanagari
           else if 2 * latin_count > total then Latin
           else Mixed)"

section \<open>Expected script (\<open>TranslationTester.get_expected_script\<close>)\<close>

definition script_map :: "(ustr \<times> script) list" where
  "script_map =
     [(of_ascii ''eng_Latn'', Latin),
      (of_ascii ''hin_Deva'', Devanagari),
      (of_ascii ''tel_Telu'', Telugu),
      (of_ascii ''eng'', Latin),
      (of_ascii ''hin'', Devanagari),
      (of_ascii ''tel'', Telugu),
      (of_ascii ''english'', Latin),
      (of_ascii ''hindi'', Devanagari),
      (of_ascii ''telugu'', Telugu)]"

definition get_expected_script :: "unicode \<Rightarrow> ustr \<Rightarrow> script" where
  "get_expected_script U lang_code =
     (case map_of script_map (lower U lang_code) of
        Some s \<Rightarrow> s
      | None \<Rightarrow> Unknown)"

section \<open>Reassembly (\<open>ContextualTranslator._join_parts_intelligently\<close>)\<close>

definition punct :: "nat set" where
  "punct = set (of_ascii ''.,!?;:'')"

text \<open>
  The loop over \<open>parts[1:]\<close>, with \<open>result\<close> as the accumulator. In the English branch
  the condition \<open>result and not result[-1] in P and not part[0] in P\<close> is evaluated left
  to right: \<open>part[0]\<close> is read only when \<open>result\<close> is non-empty and does not end in
  punctuation, and raises \<open>IndexError\<close> when \<open>part\<close> is empty.
\<close>

fun join_loop :: "ustr \<Rightarrow> ustr \<Rightarrow> ustr list \<Rightarrow> error + ustr" where
  "join_loop target_lang result [] = Inr result"
| "join_loop target_lang result (part # rest) =
     (if target_lang = of_ascii ''eng_Latn'' \<or> target_lang = of_ascii ''eng'' then
        (if result \<noteq> [] \<and> last result \<notin> punct then
           (case part of
              [] \<Rightarrow> Inl IndexError
            | c # _ \<Rightarrow>
                if c \<notin> punct then join_loop target_lang (result @ [0x20] @ part) rest
                else join_loop target_lang (result @ part) rest)
         else join_loop target_lang (result @ part) rest)
      else
        (if result \<noteq> [] \<and> part \<noteq> [] then join_loop target_lang (result @ [0x20] @ part) rest
         else join_loop target_lang (result @ part) rest))"

definition join_parts_intelligently :: "ustr list \<Rightarrow> ustr \<Rightarrow> error + ustr" where
  "join_parts_intelligently parts target_lang =
     (case parts of
        [] \<Rightarrow> Inr []
      | p # rest \<Rightarrow>
          (case join_loop target_lang p rest of
             Inl e \<Rightarrow> Inl e
           | Inr result \<Rightarrow> Inr (strip result)))"

section \<open>Segmentation (\<open>IdiomDetector.split_sentence_with_idioms\<close>)\<close>

text \<open>
  A detected idiom: the canonical form, the offsets of the match (\<open>stop\<close> is the key
  \<open>'end'\<close> of the source) and the matched text.
\<close>

record span =
  idiom :: ustr
  start :: nat
  stop :: nat
  original :: ustr

text \<open>A part is tagged \<open>'text'\<close>, with its content, or \<open>'idiom'\<close>, with content and canonical form.\<close>

datatype part = TextPart ustr | IdiomPart ustr ustr

fun content :: "part \<Rightarrow> ustr" where
  "content (TextPart c) = c"
| "content (IdiomPart c canonical) = c"

text \<open>The slice \<open>text[a:b]\<close> for offsets that are not negative.\<close>

definition slice :: "ustr \<Rightarrow> nat \<Rightarrow> nat \<Rightarrow> ustr" where
  "slice text a b = take (b - a) (drop a text)"

text \<open>The loop over the idioms, with \<open>current_pos\<close>, followed by the text after the last one.\<close>

fun split_loop :: "ustr \<Rightarrow> nat \<Rightarrow> span list \<Rightarrow> part list" where
  "split_loop text current_pos [] =
     (if current_pos < length text then
        (let after_text = strip (drop current_pos text)
         in if after_text \<noteq> [] then [TextPart after_text] else [])
      else [])"
| "split_loop text current_pos (i # rest) =
     (if current_pos < start i then
        (let before_text = strip (slice text current_pos (start i))
         in if before_text \<noteq> [] then [TextPart before_text] else [])
      else [])
     @ [IdiomPart (original i) (idiom i)]
     @ split_loop text (stop i) rest"

definition split_sentence_with_idioms :: "ustr \<Rightarrow> span list \<Rightarrow> part list" where
  "split_sentence_with_idioms text idioms =
     (if idioms = [] then [TextPart text] else split_loop text 0 idioms)"

text \<open>
  Spans over a text that are sorted and do not overlap: each starts at or after the end
  of the one before, ends inside the text, and carries the text between its offsets.
\<close>

fun spans_from :: "ustr \<Rightarrow> nat \<Rightarrow> span list \<Rightarrow> bool" where
  "spans_from text pos [] = True"
| "spans_from text pos (i # rest) =
     (pos \<le> start i \<and> start i \<le> stop i \<and> stop i \<le> length text \<and>
      original i = slice text (start i) (stop i) \<and> spans_from text (stop i) rest)"

definition valid_spans :: "ustr \<Rightarrow> span list \<Rightarrow> bool" where
  "valid_spans text idioms = spans_from text 0 idioms"

text \<open>
  The reconstruction the specification describes: the contents in order, with a single
  space after the \<open>k\<close>-th content where the \<open>k\<close>-th flag says that a gap existed.
\<close>

fun rejoin :: "bool list \<Rightarrow> ustr list \<Rightarrow> ustr" where
  "rejoin gaps [] = []"
| "rejoin gaps [c] = c"
| "rejoin [] (c # cs) = c @ rejoin [] cs"
| "rejoin (g # gaps) (c # cs) = c @ (if g then [0x20] else []) @ rejoin gaps cs"

text \<open>
  The contents interleaved with given strings: one before each content and one after
  the last.
\<close>

fun weave :: "ustr list \<Rightarrow> ustr list \<Rightarrow> ustr" where
  "weave (g # gs) (c # cs) = g @ c @ weave gs cs"
| "weave gs [] = concat gs"
| "weave [] cs = concat cs"

section \<open>Regular expressions (\<open>re.finditer\<close> with \<open>re.IGNORECASE\<close>)\<close>

text \<open>
  The patterns of the catalog use literal text, the classes \<open>\s\<close>, \<open>\w\<close> and \<open>[,\s]\<close>,
  groups with alternatives, the optional \<open>?\<close>, the repetition \<open>+\<close> (on a class only) and
  the negative lookahead \<open>(?!...)\<close>. They have no anchor and no lookbehind, so a match at
  a position depends on the text from that position on only.
\<close>

datatype cls = CChar nat | CSpace | CWord

datatype re =
    Eps
  | Str ustr
  | Cls "cls list"
  | Plus "cls list"
  | Seq re re
  | Alt re re
  | Opt re
  | NegAhead re

fun in_cls :: "unicode \<Rightarrow> cls \<Rightarrow> nat \<Rightarrow> bool" where
  "in_cls U (CChar p) c = ieq U p c"
| "in_cls U CSpace c = isspace c"
| "in_cls U CWord c = (isalnum U c \<or> c = 0x5F)"

text \<open>Literal text against the beginning of \<open>s\<close>, case ignored: what is left of \<open>s\<close>.\<close>

fun match_str :: "unicode \<Rightarrow> ustr \<Rightarrow> ustr \<Rightarrow> ustr option" where
  "match_str U [] s = Some s"
| "match_str U (p # ps) [] = None"
| "match_str U (p # ps) (c # cs) = (if ieq U p c then match_str U ps cs else None)"

text \<open>
  Zero or more characters of a class, greedy: the remainders of \<open>s\<close> in the order in which
  backtracking tries them, the longest run first.
\<close>

fun many :: "unicode \<Rightarrow> cls list \<Rightarrow> ustr \<Rightarrow> ustr list" where
  "many U k [] = [[]]"
| "many U k (c # cs) = (if list_ex (\<lambda>a. in_cls U a c) k then many U k cs @ [c # cs] else [c # cs])"

text \<open>
  The backtracking matcher: \<open>rmatch U r s\<close> lists what can be left of \<open>s\<close> after a match of
  \<open>r\<close> at its beginning, in the order of the engine's search (first alternative first,
  greedy repetition and option first). The match the engine reports is the first one.
\<close>

fun rmatch :: "unicode \<Rightarrow> re \<Rightarrow> ustr \<Rightarrow> ustr list" where
  "rmatch U Eps s = [s]"
| "rmatch U (Str w) s = (case match_str U w s of None \<Rightarrow> [] | Some s' \<Rightarrow> [s'])"
| "rmatch U (Cls k) s =
     (case s of [] \<Rightarrow> [] | c # cs \<Rightarrow> if list_ex (\<lambda>a. in_cls U a c) k then [cs] else [])"
| "rmatch U (Plus k) s =
     (case s of [] \<Rightarrow> [] | c # cs \<Rightarrow> if list_ex (\<lambda>a. in_cls U a c) k then many U k cs else [])"
| "rmatch U (Seq a b) s = concat (map (rmatch U b) (rmatch U a s))"
| "rmatch U (Alt a b) s = rmatch U a s @ rmatch U b s"
| "rmatch U (Opt a) s = rmatch U a s @ [s]"
| "rmatch U (NegAhead a) s = (if rmatch U a s = [] then [s] else [])"

text \<open>
  The scan of \<open>finditer\<close> over the text from offset \<open>pos\<close>, where \<open>s\<close> is the text from
  \<open>pos\<close> on: the offsets of the successive matches, each search resuming where the last
  match ended. (No pattern of the catalog matches the empty string; for a pattern that
  does, the scan here records the empty match and moves on by one character.)
\<close>

function finditer_from :: "unicode \<Rightarrow> re \<Rightarrow> nat \<Rightarrow> ustr \<Rightarrow> (nat \<times> nat) list" where
  "finditer_from U r pos [] = (if rmatch U r [] = [] then [] else [(pos, pos)])"
| "finditer_from U r pos (c # cs) =
     (case rmatch U r (c # cs) of
        [] \<Rightarrow> finditer_from U r (Suc pos) cs
      | e # _ \<Rightarrow>
          (let n = length (c # cs) - length e
           in if n = 0 then (pos, pos) # finditer_from U r (Suc pos) cs
              else (pos, pos + n) # finditer_from U r (pos + n) (drop n (c # cs))))"
  by pat_completeness auto
termination
  by (relation "measure (\<lambda>(U, r, pos, s). length s)") auto

definition finditer :: "unicode \<Rightarrow> re \<Rightarrow> ustr \<Rightarrow> (nat \<times> nat) list" where
  "finditer U r text = finditer_from U r 0 text"

text \<open>Notation for the catalog: sequences, alternatives, \<open>\s+\<close>, literals, \<open>(?!\s+\w)\<close>.\<close>

fun seqs :: "re list \<Rightarrow> re" where
  "seqs [] = Eps"
| "seqs [r] = r"
| "seqs (r # rs) = Seq r (seqs rs)"

fun alts :: "re list \<Rightarrow> re" where
  "alts [] = NegAhead Eps"
| "alts [r] = r"
| "alts (r # rs) = Alt r (alts rs)"

definition ws :: re where
  "ws = Plus [CSpace]"

definition lit :: "string \<Rightarrow> re" where
  "lit w = Str (of_ascii w)"

definition not_before_word :: re where
  "not_before_word = NegAhead (seqs [ws, Cls [CWord]])"

section \<open>The idiom catalog (\<open>IdiomDetector.__init__\<close>)\<close>

text \<open>The three dictionaries from pattern to canonical form, in insertion order.\<close>

definition english_idioms :: "(re \<times> ustr) list" where
  "english_idioms =
     [(seqs [alts [lit ''break'', lit ''breaking'', lit ''broke'', lit ''broken''], ws,
        lit ''the'', ws, lit ''ice'', not_before_word],
       of_ascii ''break the ice''),
      (seqs [alts [lit ''bite'', lit ''biting'', lit ''bit'', lit ''bitten''], ws,
        lit ''the'', ws, lit ''bullet'', not_before_word],
       of_ascii ''bite the bullet''),
      (seqs [alts [lit ''spill'', lit ''spilling'', lit ''spilled'', lit ''spilt''], ws,
        lit ''the'', ws, lit ''beans'', not_before_word],
       of_ascii ''spill the beans''),
      (seqs [alts [lit ''hit'', lit ''hitting'', lit ''hits''], ws, lit ''the'', ws,
        alts [seqs [lit ''nail'', ws, lit ''on'', ws, lit ''the'', ws, lit ''head''],
        lit ''jackpot'']],
       of_ascii ''hit the nail on the head''),
      (seqs [alts [lit ''call'', lit ''calling'', lit ''called''], ws, lit ''it'', ws,
        lit ''a'', ws, lit ''day'', not_before_word],
       of_ascii ''call it a day''),
      (seqs [alts [lit ''cut'', lit ''cutting'', lit ''cuts''], ws, alts [lit ''corners'',
        seqs [lit ''to'', ws, lit ''the'', ws, lit ''chase'']]],
       of_ascii ''cut corners''),
      (seqs [alts [lit ''piece'', lit ''pieces''], ws, lit ''of'', ws, lit ''cake'',
        not_before_word],
       of_ascii ''piece of cake''),
      (seqs [alts [lit ''cost'', lit ''costs'', lit ''costing''], ws, lit ''a'',
        Opt (lit ''n''), ws, lit ''arm'', ws, lit ''and'', ws, lit ''a'', ws, lit ''leg'',
        not_before_word],
       of_ascii ''cost an arm and a leg''),
      (seqs [alts [lit ''beat'', lit ''beating'', lit ''beats''], ws, lit ''around'', ws,
        lit ''the'', ws, lit ''bush'', not_before_word],
       of_ascii ''beat around the bush''),
      (seqs [lit ''out'', ws, lit ''of'', ws, lit ''the'', ws, lit ''blue'',
        not_before_word],
       of_ascii ''out of the blue''),
      (seqs [alts [lit ''once'', seqs [lit ''one'', ws, lit ''time'']], ws, lit ''in'', ws,
        lit ''a'', ws, lit ''blue'', ws, lit ''moon'', not_before_word],
       of_ascii ''once in a blue moon''),
      (seqs [alts [lit ''throw'', lit ''throwing'', lit ''threw'', lit ''thrown''], ws,
        lit ''in'', ws, lit ''the'', ws, lit ''towel'', not_before_word],
       of_ascii ''throw in the towel''),
      (seqs [alts [lit ''let'', lit ''letting''], ws, lit ''the'', ws, lit ''cat'', ws,
        lit ''out'', ws, lit ''of'', ws, lit ''the'', ws, lit ''bag'', not_before_word],
       of_ascii ''let the cat out of the bag''),
      (seqs [alts [lit ''cross'', lit ''crossing'', lit ''crossed''], ws, lit ''that'', ws,
        lit ''bridge'', ws, lit ''when'', ws, alts [lit ''we'', lit ''you'', lit ''they''],
        ws, alts [lit ''come'', lit ''get''], ws, lit ''to'', ws, lit ''it''],
       of_ascii ''cross that bridge''),
      (seqs [alts [lit ''hold'', lit ''holding'', lit ''held''], ws, alts [lit ''your'',
        lit ''my'', lit ''their''], ws, lit ''horses'', not_before_word],
       of_ascii ''hold your horses''),
      (seqs [alts [lit ''jump'', lit ''jumping'', lit ''jumped''], ws, lit ''the'', ws,
        lit ''gun'', not_before_word],
       of_ascii ''jump the gun''),
      (seqs [alts [lit ''miss'', lit ''missing'', lit ''missed''], ws, lit ''the'', ws,
        lit ''boat'', not_before_word],
       of_ascii ''miss the boat''),
      (seqs [alts [lit ''pull'', lit ''pulling'', lit ''pulled''], ws,
        alts [lit ''someone's'', lit ''your'', lit ''my''], ws, lit ''leg'',
        not_before_word],
       of_ascii ''pull someone's leg''),
      (alts [seqs [lit ''under'', ws, lit ''the'', ws, lit ''weather''],
        seqs [lit ''feeling'', ws, lit ''under'', ws, lit ''the'', ws, lit ''weather'']],
       of_ascii ''under the weather''),
      (seqs [lit ''the'', ws, lit ''ball'', ws, lit ''is'', ws, lit ''in'', ws,
        alts [lit ''your'', lit ''my'', lit ''their''], ws, lit ''court''],
       of_ascii ''ball in your court''),
      (seqs [Opt (seqs [lit ''a'', ws]), lit ''blessing'', ws, lit ''in'', ws,
        lit ''disguise'', not_before_word],
       of_ascii ''blessing in disguise''),
      (seqs [alts [lit ''don't'', seqs [lit ''do'', ws, lit ''not'']], ws,
        alts [lit ''count'', lit ''counting''], ws, alts [lit ''your'', lit ''my'',
        lit ''their''], ws, lit ''chickens'', ws, alts [lit ''before'', lit ''until''], ws,
        lit ''they'', ws, lit ''hatch''],
       of_ascii ''don't count your chickens''),
      (seqs [lit ''action'', Opt (lit ''s''), ws, lit ''speak'', Opt (lit ''s''), ws,
        lit ''louder'', ws, lit ''than'', ws, lit ''word'', Opt (lit ''s'')],
       of_ascii ''actions speak louder than words''),
      (seqs [Opt (seqs [lit ''a'', ws]), lit ''bird'', ws, lit ''in'', ws,
        Opt (seqs [lit ''the'', ws]), lit ''hand'', ws, lit ''is'', ws, lit ''worth'', ws,
        lit ''two'', ws, lit ''in'', ws, lit ''the'', ws, lit ''bush''],
       of_ascii ''a bird in the hand''),
      (seqs [lit ''where'', ws, lit ''there'', Opt (Str ([0x0027])), lit ''s'', ws,
        lit ''smoke'', Opt (lit '',''), ws, lit ''there'', Opt (Str ([0x0027])), lit ''s'',
        ws, lit ''fire''],
       of_ascii ''where there's smoke, there's fire'')]"

definition telugu_idioms :: "(re \<times> ustr) list" where
  "telugu_idioms =
     [(seqs [Str ([0x0C15, 0x0C24, 0x0C3F, 0x0C15, 0x0C3F, 0x0C24, 0x0C47]), ws,
        Str ([0x0C05, 0x0C24, 0x0C15, 0x0C26, 0x0C41])],
       [0x0C15, 0x0C24, 0x0C3F, 0x0C15, 0x0C3F, 0x0C24, 0x0C47, 0x0020, 0x0C05, 0x0C24,
        0x0C15, 0x0C26, 0x0C41]),
      (seqs [Str ([0x0C0E, 0x0C32, 0x0C41, 0x0C15, 0x0C15, 0x0C41]), ws, Str ([0x0C2A,
        0x0C3F, 0x0C32, 0x0C4D, 0x0C32, 0x0C3F]), ws, Str ([0x0C38, 0x0C3E, 0x0C15, 0x0C4D,
        0x0C37, 0x0C3F])],
       [0x0C0E, 0x0C32, 0x0C41, 0x0C15, 0x0C15, 0x0C41, 0x0020, 0x0C2A, 0x0C3F, 0x0C32,
        0x0C4D, 0x0C32, 0x0C3F, 0x0020, 0x0C38, 0x0C3E, 0x0C15, 0x0C4D, 0x0C37, 0x0C3F]),
      (seqs [Str ([0x0C09, 0x0C32, 0x0C4D, 0x0C32, 0x0C3F]), ws, Str ([0x0C2A, 0x0C26,
        0x0C3F]), ws, Str ([0x0C24, 0x0C32, 0x0C4D, 0x0C32, 0x0C41, 0x0C32]), ws,
        Str ([0x0C2A, 0x0C46, 0x0C1F, 0x0C4D, 0x0C1F, 0x0C41])],
       [0x0C09, 0x0C32, 0x0C4D, 0x0C32, 0x0C3F, 0x0020, 0x0C2A, 0x0C26, 0x0C3F, 0x0020,
        0x0C24, 0x0C32, 0x0C4D, 0x0C32, 0x0C41, 0x0C32, 0x0020, 0x0C2A, 0x0C46, 0x0C1F,
        0x0C4D, 0x0C1F, 0x0C41]),
      (seqs [Str ([0x0C05, 0x0C21, 0x0C35, 0x0C3F]), ws, Str ([0x0C15, 0x0C3E, 0x0C1A,
        0x0C3F, 0x0C28]), ws, Str ([0x0C35, 0x0C46, 0x0C28, 0x0C4D, 0x0C28, 0x0C46,
        0x0C32])],
       [0x0C05, 0x0C21, 0x0C35, 0x0C3F, 0x0020, 0x0C15, 0x0C3E, 0x0C1A, 0x0C3F, 0x0C28,
        0x0020, 0x0C35, 0x0C46, 0x0C28, 0x0C4D, 0x0C28, 0x0C46, 0x0C32]),
      (seqs [Str ([0x0C2A, 0x0C48, 0x0C28]), ws, Str ([0x0C2A, 0x0C1F, 0x0C3E, 0x0C30,
        0x0C02]), Plus [CChar 0x2C, CSpace], Str ([0x0C32, 0x0C4B, 0x0C28]), ws,
        Str ([0x0C32, 0x0C4A, 0x0C1F, 0x0C3E, 0x0C30, 0x0C02])],
       [0x0C2A, 0x0C48, 0x0C28, 0x0020, 0x0C2A, 0x0C1F, 0x0C3E, 0x0C30, 0x0C02, 0x002C,
        0x0020, 0x0C32, 0x0C4B, 0x0C28, 0x0020, 0x0C32, 0x0C4A, 0x0C1F, 0x0C3E, 0x0C30,
        0x0C02])]"

definition hindi_idioms :: "(re \<times> ustr) list" where
  "hindi_idioms =
     [(seqs [Str ([0x0905, 0x0902, 0x0927, 0x094B, 0x0902]), ws, Str ([0x092E, 0x0947,
        0x0902]), ws, Str ([0x0915, 0x093E, 0x0928, 0x093E]), ws, Str ([0x0930, 0x093E,
        0x091C, 0x093E])],
       [0x0905, 0x0902, 0x0927, 0x094B, 0x0902, 0x0020, 0x092E, 0x0947, 0x0902, 0x0020,
        0x0915, 0x093E, 0x0928, 0x093E, 0x0020, 0x0930, 0x093E, 0x091C, 0x093E]),
      (seqs [Str ([0x091C, 0x0948, 0x0938, 0x093E]), ws, Str ([0x0926, 0x0947, 0x0936]), ws,
        Str ([0x0935, 0x0948, 0x0938, 0x093E]), ws, Str ([0x092D, 0x0947, 0x0937])],
       [0x091C, 0x0948, 0x0938, 0x093E, 0x0020, 0x0926, 0x0947, 0x0936, 0x0020, 0x0935,
        0x0948, 0x0938, 0x093E, 0x0020, 0x092D, 0x0947, 0x0937]),
      (seqs [Str ([0x0918, 0x0930]), ws, Str ([0x0915, 0x0940]), ws, Str ([0x092E, 0x0941,
        0x0930, 0x094D, 0x0917, 0x0940]), ws, Str ([0x0926, 0x093E, 0x0932]), ws,
        Str ([0x092C, 0x0930, 0x093E, 0x092C, 0x0930])],
       [0x0918, 0x0930, 0x0020, 0x0915, 0x0940, 0x0020, 0x092E, 0x0941, 0x0930, 0x094D,
        0x0917, 0x0940, 0x0020, 0x0926, 0x093E, 0x0932, 0x0020, 0x092C, 0x0930, 0x093E,
        0x092C, 0x0930])]"

section \<open>Idiom detection (\<open>IdiomDetector.detect_idioms\<close>)\<close>

text \<open>\<open>str.split()\<close>: the maximal runs of characters that are not whitespace.\<close>

fun split_acc :: "ustr \<Rightarrow> ustr \<Rightarrow> ustr list" where
  "split_acc word [] = (if word = [] then [] else [word])"
| "split_acc word (c # cs) =
     (if isspace c then (if word = [] then split_acc [] cs else word # split_acc [] cs)
      else split_acc (word @ [c]) cs)"

definition py_split :: "ustr \<Rightarrow> ustr list" where
  "py_split s = split_acc [] s"

text \<open>\<open>' '.join(words)\<close>.\<close>

fun join_space :: "ustr list \<Rightarrow> ustr" where
  "join_space [] = []"
| "join_space [w] = w"
| "join_space (w # rest) = w @ [0x20] @ join_space rest"

text \<open>\<open>word in s\<close> for strings: \<open>word\<close> occurs in \<open>s\<close>.\<close>

fun starts_with :: "ustr \<Rightarrow> ustr \<Rightarrow> bool" where
  "starts_with [] s = True"
| "starts_with (p # ps) [] = False"
| "starts_with (p # ps) (c # cs) = (p = c \<and> starts_with ps cs)"

fun occurs_in :: "ustr \<Rightarrow> ustr \<Rightarrow> bool" where
  "occurs_in word [] = (word = [])"
| "occurs_in word (c # cs) = (starts_with word (c # cs) \<or> occurs_in word cs)"

definition blue_objects :: "ustr list" where
  "blue_objects = map of_ascii
     [''tub'', ''car'', ''house'', ''box'', ''bag'', ''shirt'', ''sky'', ''ocean'',
      ''water'', ''bottle'', ''container'', ''room'', ''building'', ''truck'']"

definition cake_words :: "ustr list" where
  "cake_words = map of_ascii
     [''chocolate'', ''vanilla'', ''birthday'', ''wedding'', ''frosting'', ''batter'', ''slice'']"

definition ice_words :: "ustr list" where
  "ice_words = map of_ascii
     [''frozen'', ''cold'', ''winter'', ''skating'', ''hockey'', ''cubes'', ''freezer'']"

text \<open>
  \<open>_validate_idiom_context\<close>, for a match from \<open>start_pos\<close> to \<open>end_pos\<close>. The three rules
  are tried in the order of the source; each can reject, and a match that no rule rejects
  is accepted.
\<close>

definition validate_idiom_context :: "unicode \<Rightarrow> ustr \<Rightarrow> nat \<times> nat \<Rightarrow> ustr \<Rightarrow> bool" where
  "validate_idiom_context U text m idiom_form =
     (let start_pos = fst m;
          end_pos = snd m;
          words_before =
            (let words = py_split (take start_pos text) in drop (length words - 10) words);
          words_after = take 10 (py_split (drop end_pos text));
          context = lower U (join_space (words_before @ words_after))
      in if idiom_form = of_ascii ''out of the blue'' \<and>
            (case words_after of [] \<Rightarrow> False | w # _ \<Rightarrow> lower U w \<in> set blue_objects)
         then False
         else if idiom_form = of_ascii ''piece of cake'' \<and> words_after \<noteq> [] \<and>
                 list_ex (\<lambda>word. occurs_in word context) cake_words
         then False
         else if idiom_form = of_ascii ''break the ice'' \<and>
                 list_ex (\<lambda>word. occurs_in word context) ice_words
         then False
         else True)"

text \<open>The validated matches of one pattern, as spans.\<close>

definition pattern_spans :: "unicode \<Rightarrow> ustr \<Rightarrow> re \<times> ustr \<Rightarrow> span list" where
  "pattern_spans U text entry =
     map (\<lambda>m. \<lparr> idiom = snd entry, start = fst m, stop = snd m,
                 original = slice text (fst m) (snd m) \<rparr>)
       (filter (\<lambda>m. validate_idiom_context U text m (snd entry))
          (finditer U (fst entry) text))"

text \<open>\<open>list.sort(key=...)\<close> is a stable sort, as \<open>sort_key\<close> is.\<close>

definition detect_idioms :: "unicode \<Rightarrow> ustr \<Rightarrow> ustr \<Rightarrow> span list" where
  "detect_idioms U text language =
     (if language = of_ascii ''eng_Latn'' \<or> language = of_ascii ''eng'' then
        sort_key start (concat (map (pattern_spans U text) english_idioms))
      else if language = of_ascii ''tel_Telu'' \<or> language = of_ascii ''tel'' then
        sort_key start (concat (map (pattern_spans U text) telugu_idioms))
      else if language = of_ascii ''hin_Deva'' \<or> language = of_ascii ''hin'' then
        sort_key start (concat (map (pattern_spans U text) hindi_idioms))
      else [])"


section \<open>The external translation engine\<close>

text \<open>
  The fine-tuned model and the base model, each with its tokenizer, are outside the
  repository. One call takes the text, the source and the target language code and
  gives the decoded output, or fails. The generation parameters (\<open>max_length\<close>, beams,
  penalties) are constants passed to the engine and are left inside it. Every call the
  code issues is logged.
\<close>

record engine =
  generate :: "ustr \<Rightarrow> ustr \<Rightarrow> ustr \<Rightarrow> error + ustr"
  fallback_generate :: "ustr \<Rightarrow> ustr \<Rightarrow> ustr \<Rightarrow> error + ustr"

datatype call = Primary ustr ustr ustr | Fallback ustr ustr ustr

definition fallback_translate :: "engine \<Rightarrow> ustr \<Rightarrow> ustr \<Rightarrow> ustr \<Rightarrow> error + ustr" where
  "fallback_translate E text source_lang target_lang =
     (case fallback_generate E text source_lang target_lang of
        Inl e \<Rightarrow> Inl e
      | Inr raw \<Rightarrow> Inr (strip raw))"

section \<open>Plain mode (\<open>TranslationTester.translate\<close>)\<close>

definition lang_map :: "(ustr \<times> ustr) list" where
  "lang_map =
     [(of_ascii ''eng'', of_ascii ''eng_Latn''),
      (of_ascii ''hin'', of_ascii ''hin_Deva''),
      (of_ascii ''tel'', of_ascii ''tel_Telu''),
      (of_ascii ''english'', of_ascii ''eng_Latn''),
      (of_ascii ''hindi'', of_ascii ''hin_Deva''),
      (of_ascii ''telugu'', of_ascii ''tel_Telu'')]"

text \<open>\<open>lang_map.get(lang.lower(), lang)\<close>: a code that is no alias is kept as it is.\<close>

definition normalize_lang :: "unicode \<Rightarrow> ustr \<Rightarrow> ustr" where
  "normalize_lang U lang =
     (case map_of lang_map (lower U lang) of
        Some canonical \<Rightarrow> canonical
      | None \<Rightarrow> lang)"

text \<open>The language implied by the script of a wrongly-scripted output.\<close>

definition detected_source :: "script \<Rightarrow> ustr option" where
  "detected_source actual_script =
     (if actual_script = Devanagari then Some (of_ascii ''hin_Deva'')
      else if actual_script = Telugu then Some (of_ascii ''tel_Telu'')
      else if actual_script = Latin then Some (of_ascii ''eng_Latn'')
      else None)"

text \<open>
  The result is the returned pair \<open>(translation, used_fallback)\<close> or the exception, together
  with the calls issued to the engine, in order.
\<close>

definition translate ::
  "unicode \<Rightarrow> engine \<Rightarrow> ustr \<Rightarrow> ustr \<Rightarrow> ustr \<Rightarrow> bool \<Rightarrow> (error + ustr \<times> bool) \<times> call list" where
  "translate U E text source_lang0 target_lang0 use_fallback =
     (let source_lang = normalize_lang U source_lang0;
          target_lang = normalize_lang U target_lang0;
          expected_script = get_expected_script U target_lang;
          first_call = Primary text source_lang target_lang
      in case generate E text source_lang target_lang of
           Inl e \<Rightarrow> (Inl e, [first_call])
         | Inr raw \<Rightarrow>
             let translation = strip raw;
                 actual_script = detect_script U translation
             in if actual_script = expected_script then (Inr (translation, False), [first_call])
                else if use_fallback then
                  (case detected_source actual_script of
                     None \<Rightarrow> (Inr (translation, False), [first_call])
                   | Some detected \<Rightarrow>
                       if detected \<noteq> target_lang then
                         (case fallback_translate E translation detected target_lang of
                            Inl e \<Rightarrow>
                              (Inl e, [first_call, Fallback translation detected target_lang])
                          | Inr fallback_translation \<Rightarrow>
                              (Inr (fallback_translation, True),
                               [first_call, Fallback translation detected target_lang]))
                       else (Inr (translation, False), [first_call]))
                else (Inr (translation, False), [first_call]))"

section \<open>Contextual mode (\<open>ContextualTranslator.translate_with_context\<close>)\<close>

text \<open>
  The predefined translations: for a pair of source and target code, a dictionary from
  canonical form to translation.
\<close>

definition idiom_translations :: "((ustr \<times> ustr) \<times> (ustr \<times> ustr) list) list" where
  "idiom_translations =
     [((of_ascii ''eng_Latn'', of_ascii ''tel_Telu''),
        [(of_ascii ''piece of cake'',
          [0x0C1A, 0x0C3E, 0x0C32, 0x0C3E, 0x0020, 0x0C38, 0x0C41, 0x0C32, 0x0C41, 0x0C35,
          0x0C41]),
         (of_ascii ''out of the blue'',
          [0x0C05, 0x0C28, 0x0C41, 0x0C15, 0x0C4B, 0x0C15, 0x0C41, 0x0C02, 0x0C21, 0x0C3E]),
         (of_ascii ''break the ice'',
          [0x0C2E, 0x0C3E, 0x0C1F, 0x0C4D, 0x0C32, 0x0C3E, 0x0C21, 0x0C1F, 0x0C02, 0x0020,
          0x0C2E, 0x0C4A, 0x0C26, 0x0C32, 0x0C41, 0x0C2A, 0x0C46, 0x0C1F, 0x0C4D, 0x0C1F,
          0x0C21, 0x0C02]),
         (of_ascii ''bite the bullet'',
          [0x0C15, 0x0C37, 0x0C4D, 0x0C1F, 0x0C2E, 0x0C48, 0x0C28, 0x0020, 0x0C2A, 0x0C28,
          0x0C3F, 0x0020, 0x0C1A, 0x0C47, 0x0C2F, 0x0C21, 0x0C02]),
         (of_ascii ''spill the beans'',
          [0x0C30, 0x0C39, 0x0C38, 0x0C4D, 0x0C2F, 0x0C02, 0x0020, 0x0C1A, 0x0C46, 0x0C2A,
          0x0C4D, 0x0C2A, 0x0C21, 0x0C02]),
         (of_ascii ''call it a day'',
          [0x0C2A, 0x0C28, 0x0C3F, 0x0020, 0x0C2E, 0x0C41, 0x0C17, 0x0C3F, 0x0C02, 0x0C1A,
          0x0C21, 0x0C02]),
         (of_ascii ''hit the nail on the head'',
          [0x0C38, 0x0C30, 0x0C3F, 0x0C17, 0x0C4D, 0x0C17, 0x0C3E, 0x0020, 0x0C1A, 0x0C46,
          0x0C2A, 0x0C4D, 0x0C2A, 0x0C21, 0x0C02]),
         (of_ascii ''cost an arm and a leg'',
          [0x0C1A, 0x0C3E, 0x0C32, 0x0C3E, 0x0020, 0x0C16, 0x0C30, 0x0C40, 0x0C26, 0x0C41]),
         (of_ascii ''once in a blue moon'',
          [0x0C05, 0x0C30, 0x0C41, 0x0C26, 0x0C41, 0x0C17, 0x0C3E]),
         (of_ascii ''throw in the towel'',
          [0x0C35, 0x0C26, 0x0C41, 0x0C32, 0x0C41, 0x0C15, 0x0C4B, 0x0C35, 0x0C21, 0x0C02])]),
      ((of_ascii ''eng_Latn'', of_ascii ''hin_Deva''),
        [(of_ascii ''piece of cake'',
          [0x092C, 0x0939, 0x0941, 0x0924, 0x0020, 0x0906, 0x0938, 0x093E, 0x0928]),
         (of_ascii ''out of the blue'',
          [0x0905, 0x091A, 0x093E, 0x0928, 0x0915, 0x0020, 0x0938, 0x0947]),
         (of_ascii ''break the ice'',
          [0x092C, 0x093E, 0x0924, 0x091A, 0x0940, 0x0924, 0x0020, 0x0936, 0x0941, 0x0930,
          0x0942, 0x0020, 0x0915, 0x0930, 0x0928, 0x093E]),
         (of_ascii ''bite the bullet'',
          [0x0915, 0x0920, 0x093F, 0x0928, 0x0020, 0x0915, 0x093E, 0x092E, 0x0020, 0x0915,
          0x0930, 0x0928, 0x093E]),
         (of_ascii ''spill the beans'',
          [0x0930, 0x093E, 0x091C, 0x093C, 0x0020, 0x0916, 0x094B, 0x0932, 0x0928, 0x093E]),
         (of_ascii ''call it a day'',
          [0x0915, 0x093E, 0x092E, 0x0020, 0x0916, 0x0924, 0x094D, 0x092E, 0x0020, 0x0915,
          0x0930, 0x0928, 0x093E]),
         (of_ascii ''hit the nail on the head'',
          [0x092C, 0x093F, 0x0932, 0x0915, 0x0941, 0x0932, 0x0020, 0x0938, 0x0939, 0x0940,
          0x0020, 0x0915, 0x0939, 0x0928, 0x093E]),
         (of_ascii ''cost an arm and a leg'',
          [0x092C, 0x0939, 0x0941, 0x0924, 0x0020, 0x092E, 0x0939, 0x0902, 0x0917, 0x093E]),
         (of_ascii ''once in a blue moon'',
          [0x0915, 0x092D, 0x0940, 0x0020, 0x0915, 0x092D, 0x093E, 0x0930]),
         (of_ascii ''throw in the towel'',
          [0x0939, 0x093E, 0x0930, 0x0020, 0x092E, 0x093E, 0x0928, 0x0020, 0x0932, 0x0947,
          0x0928, 0x093E])]),
      ((of_ascii ''tel_Telu'', of_ascii ''eng_Latn''),
        [([0x0C15, 0x0C24, 0x0C3F, 0x0C15, 0x0C3F, 0x0C24, 0x0C47, 0x0020, 0x0C05, 0x0C24,
          0x0C15, 0x0C26, 0x0C41],
          of_ascii ''if you stir it, it won't stick''),
         ([0x0C0E, 0x0C32, 0x0C41, 0x0C15, 0x0C15, 0x0C41, 0x0020, 0x0C2A, 0x0C3F, 0x0C32,
          0x0C4D, 0x0C32, 0x0C3F, 0x0020, 0x0C38, 0x0C3E, 0x0C15, 0x0C4D, 0x0C37, 0x0C3F],
          of_ascii ''cat as witness for the mouse'')]),
      ((of_ascii ''hin_Deva'', of_ascii ''eng_Latn''),
        [([0x0905, 0x0902, 0x0927, 0x094B, 0x0902, 0x0020, 0x092E, 0x0947, 0x0902, 0x0020,
          0x0915, 0x093E, 0x0928, 0x093E, 0x0020, 0x0930, 0x093E, 0x091C, 0x093E],
          [0x0069, 0x006E, 0x0020, 0x0074, 0x0068, 0x0065, 0x0020, 0x006C, 0x0061, 0x006E,
          0x0064, 0x0020, 0x006F, 0x0066, 0x0020, 0x0074, 0x0068, 0x0065, 0x0020, 0x0062,
          0x006C, 0x0069, 0x006E, 0x0064, 0x002C, 0x0020, 0x0074, 0x0068, 0x0065, 0x0020,
          0x006F, 0x006E, 0x0065, 0x002D, 0x0065, 0x0079, 0x0065, 0x0064, 0x0020, 0x006D,
          0x0061, 0x006E, 0x0020, 0x0069, 0x0073, 0x0020, 0x006B, 0x0069, 0x006E, 0x0067]),
         ([0x091C, 0x0948, 0x0938, 0x093E, 0x0020, 0x0926, 0x0947, 0x0936, 0x0020, 0x0935,
          0x0948, 0x0938, 0x093E, 0x0020, 0x092D, 0x0947, 0x0937],
          of_ascii ''when in Rome, do as the Romans do'')])]"

text \<open>
  \<open>idiom_key in self.idiom_translations and canonical_idiom in
  self.idiom_translations[idiom_key]\<close>, and the entry when it is there. The key is the pair
  of codes as the caller gave them.
\<close>

definition predefined :: "ustr \<Rightarrow> ustr \<Rightarrow> ustr \<Rightarrow> ustr option" where
  "predefined source_lang target_lang canonical_idiom =
     (case map_of idiom_translations (source_lang, target_lang) of
        None \<Rightarrow> None
      | Some table \<Rightarrow> map_of table canonical_idiom)"

text \<open>One entry of \<open>idiom_details\<close>: the keys \<open>original\<close>, \<open>canonical\<close>, \<open>translation\<close>.\<close>

record idiom_detail =
  detail_original :: ustr
  detail_canonical :: ustr
  detail_translation :: ustr

text \<open>
  The metadata: for the method \<open>direct\<close> the fallback flag (no idiom was detected); for the
  method \<open>contextual\<close> the number of idioms detected, the idiom details and the number of
  parts translated.
\<close>

datatype metadata = Direct bool | Contextual nat "idiom_detail list" nat

text \<open>
  The body of the loop over the parts: the translation of one part, the idiom detail it
  adds (for an idiom part), and the calls issued. No exception is caught: a failure of
  \<open>translate\<close> leaves the loop.
\<close>

definition translate_part ::
  "unicode \<Rightarrow> engine \<Rightarrow> ustr \<Rightarrow> ustr \<Rightarrow> part \<Rightarrow> (error + ustr \<times> idiom_detail option) \<times> call list" where
  "translate_part U E source_lang target_lang p =
     (case p of
        TextPart c \<Rightarrow>
          (case translate U E c source_lang target_lang True of
             (Inl e, calls) \<Rightarrow> (Inl e, calls)
           | (Inr (tr, used_fallback), calls) \<Rightarrow> (Inr (tr, None), calls))
      | IdiomPart c canonical_idiom \<Rightarrow>
          (case predefined source_lang target_lang canonical_idiom of
             Some idiom_trans \<Rightarrow>
               (Inr (idiom_trans,
                     Some \<lparr> detail_original = c, detail_canonical = canonical_idiom,
                            detail_translation = idiom_trans \<rparr>), [])
           | None \<Rightarrow>
               (case translate U E canonical_idiom source_lang target_lang True of
                  (Inl e, calls) \<Rightarrow> (Inl e, calls)
                | (Inr (idiom_trans, used_fallback), calls) \<Rightarrow>
                    (Inr (idiom_trans,
                          Some \<lparr> detail_original = c, detail_canonical = canonical_idiom,
                                 detail_translation = idiom_trans \<rparr>), calls))))"

text \<open>The loop: \<open>translated_parts\<close> and \<open>idiom_translations\<close>, and the calls of all parts.\<close>

fun translate_parts ::
  "unicode \<Rightarrow> engine \<Rightarrow> ustr \<Rightarrow> ustr \<Rightarrow> part list \<Rightarrow>
   (error + ustr list \<times> idiom_detail list) \<times> call list" where
  "translate_parts U E source_lang target_lang [] = (Inr ([], []), [])"
| "translate_parts U E source_lang target_lang (p # rest) =
     (case translate_part U E source_lang target_lang p of
        (Inl e, calls) \<Rightarrow> (Inl e, calls)
      | (Inr (tr, detail), calls) \<Rightarrow>
          (case translate_parts U E source_lang target_lang rest of
             (Inl e, calls') \<Rightarrow> (Inl e, calls @ calls')
           | (Inr (translated, details), calls') \<Rightarrow>
               (Inr (tr # translated,
                     (case detail of None \<Rightarrow> details | Some d \<Rightarrow> d # details)),
                calls @ calls')))"

text \<open>The parameter \<open>preserve_idioms\<close> of the source is never read and is left out.\<close>

definition translate_with_context ::
  "unicode \<Rightarrow> engine \<Rightarrow> ustr \<Rightarrow> ustr \<Rightarrow> ustr \<Rightarrow> (error + ustr \<times> metadata) \<times> call list" where
  "translate_with_context U E text source_lang target_lang =
     (let idioms_found = detect_idioms U text source_lang
      in if idioms_found = [] then
           (case translate U E text source_lang target_lang True of
              (Inl e, calls) \<Rightarrow> (Inl e, calls)
            | (Inr (translation, used_fallback), calls) \<Rightarrow>
                (Inr (translation, Direct used_fallback), calls))
         else
           (let parts = split_sentence_with_idioms text idioms_found
            in case translate_parts U E source_lang target_lang parts of
                 (Inl e, calls) \<Rightarrow> (Inl e, calls)
               | (Inr (translated_parts, details), calls) \<Rightarrow>
                   (case join_parts_intelligently translated_parts target_lang of
                      Inl e \<Rightarrow> (Inl e, calls)
                    | Inr final_translation \<Rightarrow>
                        (Inr (final_translation,
                              Contextual (length idioms_found) details (length parts)),
                         calls))))"

section \<open>Concrete engines and texts\<close>

text \<open>
  An engine whose two models succeed and answer with their input text.
\<close>

definition echo_engine :: engine where
  "echo_engine = \<lparr> generate = (\<lambda>text src tgt. Inr text),
                    fallback_generate = (\<lambda>text src tgt. Inr text) \<rparr>"

text \<open>
  An engine whose fine-tuned model answers every request in Devanagari and whose base
  model answers in Latin script.
\<close>

definition namaste :: ustr where
  "namaste = [0x0928, 0x092E, 0x0938, 0x094D, 0x0924, 0x0947]"

definition wrong_script_engine :: engine where
  "wrong_script_engine = \<lparr> generate = (\<lambda>text src tgt. Inr namaste),
                    fallback_generate = (\<lambda>text src tgt. Inr (of_ascii ''hello'')) \<rparr>"

text \<open>A text with two spaces before its idiom, and the span of the idiom.\<close>

definition cake_text :: ustr where
  "cake_text = of_ascii ''a  piece of cake''"

definition cake_spans :: "span list" where
  "cake_spans = [\<lparr> idiom = of_ascii ''piece of cake'', start = 3, stop = 16,
                    original = of_ascii ''piece of cake'' \<rparr>]"

text \<open>
  An engine whose fine-tuned model fails on the text \<open>it was a\<close> and answers every other
  text with the text itself.
\<close>

definition flaky_engine :: engine where
  "flaky_engine =
     \<lparr> generate = (\<lambda>text src tgt.
                       if text = of_ascii ''it was a'' then Inl CapabilityFailure else Inr text),
       fallback_generate = (\<lambda>text src tgt. Inr text) \<rparr>"


definition cake_sentence :: ustr where
  "cake_sentence = of_ascii ''it was a piece of cake''"

definition hindi_easy :: ustr where
  "hindi_easy = [0x092C, 0x0939, 0x0941, 0x0924, 0x0020, 0x0906, 0x0938, 0x093E, 0x0928]"

section \<open>Results\<close>

lemma of_ascii_simps:
  "of_ascii [] = []"
  "of_ascii (c # cs) = of_char c # of_ascii cs"
  by (simp_all add: of_ascii_def)

text \<open>
  C10, at the failing input: joining the parts \<open>["hello", ""]\<close> for the target
  \<open>eng_Latn\<close> raises \<open>IndexError\<close> instead of returning a string.
\<close>

theorem join_parts_empty_part_raises:
  "join_parts_intelligently [of_ascii ''hello'', []] (of_ascii ''eng_Latn'') = Inl IndexError"
  by (simp add: join_parts_intelligently_def of_ascii_simps punct_def)

text \<open>The unfolding rules that evaluate the model on a concrete request.\<close>

lemmas basic_eval =
  translate_def normalize_lang_def lang_map_def get_expected_script_def script_map_def
  basic_unicode_def of_ascii_simps ascii_lower_def
  strip_def lstrip_def rstrip_def isspace_def detect_script_def basic_alpha_def
  telugu_range_def devanagari_range_def
  ascii_letter_def deva_letter_def telu_letter_def detected_source_def
  fallback_translate_def Let_def

subsection \<open>Expected script\<close>

text \<open>
  C1, at the failing inputs: the code is lowered before the lookup, while the three
  canonical keys of \<open>script_map\<close> keep their capital letter, so each canonical code
  \<open>eng_Latn\<close>, \<open>hin_Deva\<close>, \<open>tel_Telu\<close> is answered \<open>Unknown\<close> and not with its script.
\<close>

theorem get_expected_script_canonical_unknown:
  "get_expected_script basic_unicode (of_ascii ''eng_Latn'') = Unknown \<and>
   get_expected_script basic_unicode (of_ascii ''hin_Deva'') = Unknown \<and>
   get_expected_script basic_unicode (of_ascii ''tel_Telu'') = Unknown"
  by (simp add: basic_eval)

subsection \<open>Plain mode\<close>




text \<open>
  C3 as stated fails: \<open>translate\<close> has the parameter \<open>use_fallback\<close>. With
  \<open>use_fallback = False\<close>, a Devanagari first output for the target \<open>eng_Latn\<close> differs
  from the expected script and implies Hindi, a language other than the target, yet no
  second call is issued: the first output is returned with the flag \<open>False\<close>.
\<close>

theorem translate_no_fallback_counterexample:
  "detect_script basic_unicode (strip namaste) \<noteq>
      get_expected_script basic_unicode (normalize_lang basic_unicode (of_ascii ''eng_Latn'')) \<and>
   detected_source (detect_script basic_unicode (strip namaste)) = Some (of_ascii ''hin_Deva'') \<and>
   of_ascii ''hin_Deva'' \<noteq> normalize_lang basic_unicode (of_ascii ''eng_Latn'') \<and>
   translate basic_unicode wrong_script_engine (of_ascii ''hello'') (of_ascii ''hin_Deva'')
       (of_ascii ''eng_Latn'') False =
     (Inr (namaste, False),
      [Primary (of_ascii ''hello'') (of_ascii ''hin_Deva'') (of_ascii ''eng_Latn'')])"
  by (simp add: basic_eval namaste_def wrong_script_engine_def)

text \<open>
  C3, amended: with the fallback enabled (\<open>use_fallback = True\<close>, the default), when the
  first call succeeds, the script of its output differs from the expected script and
  implies a language other than the target, \<open>translate\<close> issues exactly one more call, to
  the base model, translating the first output from the implied language to the target,
  and returns what that call gives (its output with the flag \<open>True\<close>, whatever its
  script). With \<open>use_fallback = False\<close> the first output is returned with the flag
  \<open>False\<close> after the one call. No request, with the fallback enabled or not, issues
  more than two calls.
\<close>

theorem translate_fallback_retry:
  assumes "generate E text (normalize_lang U src) (normalize_lang U tgt) = Inr raw"
    and "detect_script U (strip raw) \<noteq> get_expected_script U (normalize_lang U tgt)"
    and "detected_source (detect_script U (strip raw)) = Some detected"
    and "detected \<noteq> normalize_lang U tgt"
  shows "translate U E text src tgt True =
           ((case fallback_generate E (strip raw) detected (normalize_lang U tgt) of
               Inl e \<Rightarrow> Inl e
             | Inr raw2 \<Rightarrow> Inr (strip raw2, True)),
            [Primary text (normalize_lang U src) (normalize_lang U tgt),
             Fallback (strip raw) detected (normalize_lang U tgt)]) \<and>
         translate U E text src tgt False =
           (Inr (strip raw, False),
            [Primary text (normalize_lang U src) (normalize_lang U tgt)]) \<and>
         length (snd (translate U' E' text' src' tgt' fb)) \<le> 2"
proof (intro conjI)
  show "translate U E text src tgt False =
           (Inr (strip raw, False),
            [Primary text (normalize_lang U src) (normalize_lang U tgt)])"
    using assms by (simp add: translate_def Let_def)
  show "translate U E text src tgt True =
           ((case fallback_generate E (strip raw) detected (normalize_lang U tgt) of
               Inl e \<Rightarrow> Inl e
             | Inr raw2 \<Rightarrow> Inr (strip raw2, True)),
            [Primary text (normalize_lang U src) (normalize_lang U tgt),
             Fallback (strip raw) detected (normalize_lang U tgt)])"
    using assms by (simp add: translate_def Let_def fallback_translate_def split: sum.splits)
  show "length (snd (translate U' E' text' src' tgt' fb)) \<le> 2"
    by (simp add: translate_def Let_def split: sum.splits option.splits)
qed

text \<open>The amended C3 at a concrete request: Devanagari output for the target \<open>eng_Latn\<close>.\<close>

theorem translate_fallback_retry_witness:
  "generate wrong_script_engine (of_ascii ''hello'') (normalize_lang basic_unicode (of_ascii ''hin_Deva''))
      (normalize_lang basic_unicode (of_ascii ''eng_Latn'')) = Inr namaste \<and>
   detect_script basic_unicode (strip namaste) \<noteq>
      get_expected_script basic_unicode (normalize_lang basic_unicode (of_ascii ''eng_Latn'')) \<and>
   detected_source (detect_script basic_unicode (strip namaste)) = Some (of_ascii ''hin_Deva'') \<and>
   of_ascii ''hin_Deva'' \<noteq> normalize_lang basic_unicode (of_ascii ''eng_Latn'') \<and>
   translate basic_unicode wrong_script_engine (of_ascii ''hello'') (of_ascii ''hin_Deva'')
       (of_ascii ''eng_Latn'') True =
     (Inr (of_ascii ''hello'', True),
      [Primary (of_ascii ''hello'') (of_ascii ''hin_Deva'') (of_ascii ''eng_Latn''),
       Fallback namaste (of_ascii ''hin_Deva'') (of_ascii ''eng_Latn'')])"
proof -
  have g: "generate wrong_script_engine (of_ascii ''hello'') (normalize_lang basic_unicode (of_ascii ''hin_Deva''))
      (normalize_lang basic_unicode (of_ascii ''eng_Latn'')) = Inr namaste"
    by (simp add: wrong_script_engine_def)
  have m: "detect_script basic_unicode (strip namaste) \<noteq>
      get_expected_script basic_unicode (normalize_lang basic_unicode (of_ascii ''eng_Latn''))"
    by (simp add: basic_eval namaste_def)
  have d: "detected_source (detect_script basic_unicode (strip namaste)) = Some (of_ascii ''hin_Deva'')"
    by (simp add: basic_eval namaste_def)
  have n: "of_ascii ''hin_Deva'' \<noteq> normalize_lang basic_unicode (of_ascii ''eng_Latn'')"
    by (simp add: basic_eval namaste_def)
  have s: "strip namaste = namaste" "strip (of_ascii ''hello'') = of_ascii ''hello''"
    by (simp_all add: basic_eval namaste_def)
  have nn: "normalize_lang basic_unicode (of_ascii ''hin_Deva'') = of_ascii ''hin_Deva''"
     "normalize_lang basic_unicode (of_ascii ''eng_Latn'') = of_ascii ''eng_Latn''"
    by (simp_all add: basic_eval)
  have f: "fallback_generate wrong_script_engine t a b = Inr (of_ascii ''hello'')" for t a b
    by (simp add: wrong_script_engine_def)
  from translate_fallback_retry [OF g m d n]
  have "translate basic_unicode wrong_script_engine (of_ascii ''hello'') (of_ascii ''hin_Deva'')
       (of_ascii ''eng_Latn'') True =
     (Inr (of_ascii ''hello'', True),
      [Primary (of_ascii ''hello'') (of_ascii ''hin_Deva'') (of_ascii ''eng_Latn''),
       Fallback namaste (of_ascii ''hin_Deva'') (of_ascii ''eng_Latn'')])"
    by (simp add: s nn f)
  with g m d n show ?thesis by blast
qed

text \<open>
  C4 as stated fails: the target code \<open>xx_Yyyy\<close> is no alias and no key of \<open>script_map\<close>
  (the canonical codes are among its keys), and the request succeeds after two calls to
  the engine.
\<close>

theorem translate_unknown_language_counterexample:
  "map_of lang_map (lower basic_unicode (of_ascii ''xx_Yyyy'')) = None \<and>
   map_of script_map (of_ascii ''xx_Yyyy'') = None \<and>
   translate basic_unicode echo_engine (of_ascii ''hello'') (of_ascii ''eng'')
       (of_ascii ''xx_Yyyy'') True =
     (Inr (of_ascii ''hello'', True),
      [Primary (of_ascii ''hello'') (of_ascii ''eng_Latn'') (of_ascii ''xx_Yyyy''),
       Fallback (of_ascii ''hello'') (of_ascii ''eng_Latn'') (of_ascii ''xx_Yyyy'')])"
  by (simp add: basic_eval echo_engine_def)

text \<open>
  C4, amended: a target code outside the alias table is passed to the engine as it is.
  The first call is always issued, with that code, and when the engine does not fail the
  request returns a result.
\<close>

theorem translate_unknown_language_passes_through:
  assumes "map_of lang_map (lower U tgt) = None"
    and "\<forall>t s g. \<exists>raw. generate E t s g = Inr raw"
    and "\<forall>t s g. \<exists>raw. fallback_generate E t s g = Inr raw"
  shows "\<exists>r rest. translate U E text src tgt fb =
           (Inr r, Primary text (normalize_lang U src) tgt # rest)"
proof -
  have n: "normalize_lang U tgt = tgt" using assms(1) by (simp add: normalize_lang_def)
  obtain raw where g: "generate E text (normalize_lang U src) tgt = Inr raw"
    using assms(2) by blast
  have f: "\<exists>raw2. fallback_generate E t s g = Inr raw2" for t s g
    using assms(3) by blast
  show ?thesis
  proof (cases "detect_script U (strip raw) \<noteq> get_expected_script U tgt \<and> fb \<and>
      (\<exists>d. detected_source (detect_script U (strip raw)) = Some d \<and> d \<noteq> tgt)")
    case True
    then obtain d where d: "detected_source (detect_script U (strip raw)) = Some d" "d \<noteq> tgt"
      by blast
    obtain raw2 where "fallback_generate E (strip raw) d tgt = Inr raw2" using f by blast
    with True d g n show ?thesis
      by (auto simp add: translate_def Let_def fallback_translate_def)
  next
    case False
    with g n show ?thesis
      by (auto simp add: translate_def Let_def fallback_translate_def split: option.splits)
  qed
qed

text \<open>The amended C4 at a concrete request with two unknown codes.\<close>

theorem translate_unknown_language_passes_through_witness:
  "\<exists>r rest. translate basic_unicode echo_engine (of_ascii ''123'') (of_ascii ''xx'') (of_ascii ''yy'') True =
           (Inr r, Primary (of_ascii ''123'') (normalize_lang basic_unicode (of_ascii ''xx'')) (of_ascii ''yy'') # rest)"
proof -
  have a: "map_of lang_map (lower basic_unicode (of_ascii ''yy'')) = None"
    by (simp add: basic_eval)
  have b: "\<forall>t s g. \<exists>raw. generate echo_engine t s g = Inr raw"
    by (simp add: echo_engine_def)
  have c: "\<forall>t s g. \<exists>raw. fallback_generate echo_engine t s g = Inr raw"
    by (simp add: echo_engine_def)
  show ?thesis by (rule translate_unknown_language_passes_through [OF a b c])
qed

subsection \<open>Script classification\<close>

text \<open>
  C8 as stated fails twice. The three Devanagari digits lie in the Devanagari range and
  are classified \<open>Unknown\<close>, since none of them is alphabetic. In the text of the letter
  KA, the vowel sign II, a space and \<open>ab\<close>, two of the three alphabetic characters are
  Latin and one is Devanagari, and the result is \<open>Devanagari\<close>: the Telugu and Devanagari
  counts take every character of the range, alphabetic or not.
\<close>

theorem detect_script_range_counterexample:
  "list_all devanagari_range [0x0967, 0x0968, 0x0969] \<and>
   detect_script basic_unicode [0x0967, 0x0968, 0x0969] = Unknown \<and>
   length (filter (isalpha basic_unicode) [0x0915, 0x0940, 0x20, 0x61, 0x62]) = 3 \<and>
   length (filter (\<lambda>c. isalpha basic_unicode c \<and> c < 128) [0x0915, 0x0940, 0x20, 0x61, 0x62]) = 2 \<and>
   length (filter (\<lambda>c. isalpha basic_unicode c \<and> devanagari_range c) [0x0915, 0x0940, 0x20, 0x61, 0x62]) = 1 \<and>
   detect_script basic_unicode [0x0915, 0x0940, 0x20, 0x61, 0x62] = Devanagari"
  by (simp add: basic_eval)

text \<open>
  C8, amended: a text without alphabetic characters is \<open>Unknown\<close>; a non-empty text of
  alphabetic characters of one range (Telugu, Devanagari, ASCII) is of that script; and a
  text with alphabetic characters is Telugu, Devanagari or Latin, tried in this order,
  when twice the number of its characters in the Telugu range, in the Devanagari range,
  or of its ASCII letters exceeds the number of its alphabetic characters, and \<open>Mixed\<close>
  otherwise.
\<close>

theorem detect_script_classifies:
  "(filter (isalpha U) t0 = [] \<longrightarrow> detect_script U t0 = Unknown) \<and>
   (t1 \<noteq> [] \<and> (\<forall>c \<in> set t1. isalpha U c \<and> telugu_range c) \<longrightarrow> detect_script U t1 = Telugu) \<and>
   (t2 \<noteq> [] \<and> (\<forall>c \<in> set t2. isalpha U c \<and> devanagari_range c) \<longrightarrow>
      detect_script U t2 = Devanagari) \<and>
   (t3 \<noteq> [] \<and> (\<forall>c \<in> set t3. isalpha U c \<and> c < 128) \<longrightarrow> detect_script U t3 = Latin) \<and>
   (filter (isalpha U) t4 \<noteq> [] \<longrightarrow>
      detect_script U t4 =
        (if 2 * length (filter telugu_range t4) > length (filter (isalpha U) t4) then Telugu
         else if 2 * length (filter devanagari_range t4) > length (filter (isalpha U) t4)
           then Devanagari
         else if 2 * length (filter (\<lambda>c. isalpha U c \<and> c < 128) t4) >
                 length (filter (isalpha U) t4) then Latin
         else Mixed))"
proof (intro conjI impI)
  assume "filter (isalpha U) t0 = []"
  then show "detect_script U t0 = Unknown" by (simp add: detect_script_def)
next
  assume a: "t1 \<noteq> [] \<and> (\<forall>c \<in> set t1. isalpha U c \<and> telugu_range c)"
  then have "filter (isalpha U) t1 = t1" "filter telugu_range t1 = t1" by (simp_all add: filter_id_conv)
  with a show "detect_script U t1 = Telugu" by (simp add: detect_script_def)
next
  assume a: "t2 \<noteq> [] \<and> (\<forall>c \<in> set t2. isalpha U c \<and> devanagari_range c)"
  then have "filter (isalpha U) t2 = t2" "filter devanagari_range t2 = t2"
    by (simp_all add: filter_id_conv)
  moreover have "filter telugu_range t2 = []"
    using a by (auto simp add: filter_empty_conv telugu_range_def devanagari_range_def)
  ultimately show "detect_script U t2 = Devanagari" using a by (simp add: detect_script_def)
next
  assume a: "t3 \<noteq> [] \<and> (\<forall>c \<in> set t3. isalpha U c \<and> c < 128)"
  then have "filter (isalpha U) t3 = t3" "filter (\<lambda>c. isalpha U c \<and> c < 128) t3 = t3"
    by (simp_all add: filter_id_conv)
  moreover have "filter telugu_range t3 = []" "filter devanagari_range t3 = []"
    using a by (auto simp add: filter_empty_conv telugu_range_def devanagari_range_def)
  ultimately show "detect_script U t3 = Latin" using a by (simp add: detect_script_def)
next
  assume a: "filter (isalpha U) t4 \<noteq> []"
  then have "t4 \<noteq> []" by auto
  with a show "detect_script U t4 =
        (if 2 * length (filter telugu_range t4) > length (filter (isalpha U) t4) then Telugu
         else if 2 * length (filter devanagari_range t4) > length (filter (isalpha U) t4)
           then Devanagari
         else if 2 * length (filter (\<lambda>c. isalpha U c \<and> c < 128) t4) >
                 length (filter (isalpha U) t4) then Latin
         else Mixed)"
    by (simp add: detect_script_def Let_def)
qed

text \<open>The amended C8 at five concrete texts, one for each case.\<close>

theorem detect_script_classifies_witness:
  "detect_script basic_unicode (of_ascii ''12, 3!'') = Unknown \<and>
   detect_script basic_unicode [0x0C05, 0x0C2E] = Telugu \<and>
   detect_script basic_unicode [0x0918, 0x0930] = Devanagari \<and>
   detect_script basic_unicode (of_ascii ''ice'') = Latin \<and>
   detect_script basic_unicode (of_ascii ''ab'' @ [0x0918, 0x0C05]) = Mixed"
proof -
  have h0: "filter (isalpha basic_unicode) (of_ascii ''12, 3!'') = []"
    by (simp add: basic_eval)
  have h1: "[0x0C05, 0x0C2E :: nat] \<noteq> [] \<and> (\<forall>c \<in> set [0x0C05, 0x0C2E]. isalpha basic_unicode c \<and> telugu_range c)"
    by (simp add: basic_eval)
  have h2: "[0x0918, 0x0930 :: nat] \<noteq> [] \<and> (\<forall>c \<in> set [0x0918, 0x0930]. isalpha basic_unicode c \<and> devanagari_range c)"
    by (simp add: basic_eval)
  have h3: "of_ascii ''ice'' \<noteq> [] \<and> (\<forall>c \<in> set (of_ascii ''ice''). isalpha basic_unicode c \<and> c < 128)"
    by (simp add: basic_eval)
  have h4: "filter (isalpha basic_unicode) (of_ascii ''ab'' @ [0x0918, 0x0C05]) \<noteq> []"
    by (simp add: basic_eval)
  have e4: "(if 2 * length (filter telugu_range (of_ascii ''ab'' @ [0x0918, 0x0C05])) > length (filter (isalpha basic_unicode) (of_ascii ''ab'' @ [0x0918, 0x0C05])) then Telugu
         else if 2 * length (filter devanagari_range (of_ascii ''ab'' @ [0x0918, 0x0C05])) > length (filter (isalpha basic_unicode) (of_ascii ''ab'' @ [0x0918, 0x0C05]))
           then Devanagari
         else if 2 * length (filter (\<lambda>c. isalpha basic_unicode c \<and> c < 128) (of_ascii ''ab'' @ [0x0918, 0x0C05])) >
                 length (filter (isalpha basic_unicode) (of_ascii ''ab'' @ [0x0918, 0x0C05])) then Latin
         else Mixed) = Mixed"
    by (simp add: basic_eval)
  note T = detect_script_classifies [of basic_unicode "of_ascii ''12, 3!''" "[0x0C05, 0x0C2E]"
      "[0x0918, 0x0930]" "of_ascii ''ice''" "of_ascii ''ab'' @ [0x0918, 0x0C05]"]
  from T h0 have c0: "detect_script basic_unicode (of_ascii ''12, 3!'') = Unknown" by blast
  from T h1 have c1: "detect_script basic_unicode [0x0C05, 0x0C2E] = Telugu" by blast
  from T h2 have c2: "detect_script basic_unicode [0x0918, 0x0930] = Devanagari" by blast
  from T h3 have c3: "detect_script basic_unicode (of_ascii ''ice'') = Latin" by blast
  from T h4 have c4: "detect_script basic_unicode (of_ascii ''ab'' @ [0x0918, 0x0C05]) = Mixed"
    unfolding e4 by blast
  from c0 c1 c2 c3 c4 show ?thesis by blast
qed

subsection \<open>Segmentation\<close>

text \<open>What \<open>strip\<close> removes is whitespace, at both ends.\<close>

lemma lstrip_split: "\<exists>w. list_all isspace w \<and> s = w @ lstrip s"
proof
  show "list_all isspace (takeWhile isspace s) \<and> s = takeWhile isspace s @ lstrip s"
    by (simp add: lstrip_def list_all_iff) (meson set_takeWhileD)
qed

lemma rstrip_split: "\<exists>w. list_all isspace w \<and> s = rstrip s @ w"
proof
  have "rev s = takeWhile isspace (rev s) @ dropWhile isspace (rev s)" by simp
  then have "s = rev (dropWhile isspace (rev s)) @ rev (takeWhile isspace (rev s))"
    by (metis rev_append rev_rev_ident)
  moreover have "list_all isspace (rev (takeWhile isspace (rev s)))"
    by (simp add: list_all_iff) (meson set_takeWhileD)
  ultimately show "list_all isspace (rev (takeWhile isspace (rev s))) \<and>
      s = rstrip s @ rev (takeWhile isspace (rev s))"
    by (simp add: rstrip_def)
qed

lemma strip_split:
  "\<exists>w1 w2. list_all isspace w1 \<and> list_all isspace w2 \<and> s = w1 @ strip s @ w2"
proof -
  obtain w1 where w1: "list_all isspace w1" "s = w1 @ lstrip s" using lstrip_split by blast
  obtain w2 where w2: "list_all isspace w2" "lstrip s = rstrip (lstrip s) @ w2"
    using rstrip_split by blast
  from w1 w2 have "s = w1 @ strip s @ w2" by (simp add: strip_def)
  with w1 w2 show ?thesis by blast
qed

lemma strip_empty_all_space: "strip s = [] \<Longrightarrow> list_all isspace s"
  using strip_split [of s] by auto

text \<open>
  The loop from \<open>pos\<close> on: its contents, with whitespace between them, give the text
  from \<open>pos\<close>.
\<close>

lemma split_loop_weave:
  "spans_from text pos idioms \<Longrightarrow> pos \<le> length text \<Longrightarrow>
   \<exists>g gs. length gs = length (split_loop text pos idioms) \<and>
          list_all (list_all isspace) (g # gs) \<and>
          weave (g # gs) (map content (split_loop text pos idioms)) = drop pos text"
proof (induction idioms arbitrary: pos)
  case Nil
  show ?case
  proof (cases "strip (drop pos text) = []")
    case True
    then have "list_all isspace (drop pos text)" by (rule strip_empty_all_space)
    with True show ?thesis by (auto simp add: Let_def)
  next
    case False
    obtain w1 w2 where w: "list_all isspace w1" "list_all isspace w2"
      "drop pos text = w1 @ strip (drop pos text) @ w2"
      using strip_split by blast
    have "pos < length text"
    proof (rule ccontr)
      assume "\<not> pos < length text"
      then have "strip (drop pos text) = []" by (simp add: strip_def lstrip_def rstrip_def)
      with False show False by simp
    qed
    with False have s: "split_loop text pos [] = [TextPart (strip (drop pos text))]"
      by (simp add: Let_def)
    have "length [w2] = length (split_loop text pos []) \<and>
          list_all (list_all isspace) (w1 # [w2]) \<and>
          weave (w1 # [w2]) (map content (split_loop text pos [])) = drop pos text"
      using w s by simp
    then show ?thesis by blast
  qed
next
  case (Cons i rest)
  from Cons.prems have b: "pos \<le> start i" "start i \<le> stop i" "stop i \<le> length text"
    and o: "original i = slice text (start i) (stop i)"
    and r: "spans_from text (stop i) rest"
    by simp_all
  from Cons.IH [OF r b(3)] obtain g gs where
    ih: "length gs = length (split_loop text (stop i) rest)"
        "list_all (list_all isspace) (g # gs)"
        "weave (g # gs) (map content (split_loop text (stop i) rest)) = drop (stop i) text"
    by blast
  let ?gap = "slice text pos (start i)"
  have d1: "drop pos text = ?gap @ drop (start i) text"
    using b by (simp add: slice_def) (metis add_diff_inverse_nat append_take_drop_id drop_drop not_less add.commute)
  have d2: "drop (start i) text = original i @ drop (stop i) text"
    using b o by (simp add: slice_def) (metis add_diff_inverse_nat append_take_drop_id drop_drop not_less add.commute)
  obtain w1 w2 where w: "list_all isspace w1" "list_all isspace w2"
      "?gap = w1 @ strip ?gap @ w2"
    using strip_split by blast
  show ?case
  proof (cases "pos < start i \<and> strip ?gap \<noteq> []")
    case True
    then have s: "split_loop text pos (i # rest) =
        TextPart (strip ?gap) # IdiomPart (original i) (idiom i) # split_loop text (stop i) rest"
      by (simp add: Let_def)
    have "drop pos text = w1 @ strip ?gap @ w2 @ original i @ drop (stop i) text"
      using d1 d2 w(3) by (metis append.assoc)
    then have "length (w2 # g # gs) = length (split_loop text pos (i # rest)) \<and>
          list_all (list_all isspace) (w1 # w2 # g # gs) \<and>
          weave (w1 # w2 # g # gs) (map content (split_loop text pos (i # rest))) = drop pos text"
      using s ih w by simp
    then show ?thesis by blast
  next
    case False
    then have s: "split_loop text pos (i # rest) =
        IdiomPart (original i) (idiom i) # split_loop text (stop i) rest"
      by (auto simp add: Let_def)
    have "list_all isspace ?gap"
    proof (cases "pos < start i")
      case True
      with False have "strip ?gap = []" by simp
      then show ?thesis by (rule strip_empty_all_space)
    next
      case False
      then show ?thesis by (simp add: slice_def)
    qed
    then have "length (g # gs) = length (split_loop text pos (i # rest)) \<and>
          list_all (list_all isspace) (?gap # g # gs) \<and>
          weave (?gap # g # gs) (map content (split_loop text pos (i # rest))) = drop pos text"
      using s ih d1 d2 by simp
    then show ?thesis by blast
  qed
qed

text \<open>
  C9, amended: for sorted, non-overlapping spans over a text, the contents of the parts,
  in order, give the text back once a string of whitespace characters (possibly empty)
  is put before each content and after the last one. The whitespace that \<open>strip\<close>
  removed at the edges of the plain parts is all that is lost.
\<close>

theorem split_sentence_reconstructs_modulo_whitespace:
  assumes "valid_spans text idioms"
  shows "\<exists>gaps. length gaps = Suc (length (split_sentence_with_idioms text idioms)) \<and>
            list_all (list_all isspace) gaps \<and>
            weave gaps (map content (split_sentence_with_idioms text idioms)) = text"
proof (cases "idioms = []")
  case True
  have "length [[], []] = Suc (length (split_sentence_with_idioms text idioms)) \<and>
        list_all (list_all isspace) [[], []] \<and>
        weave [[], []] (map content (split_sentence_with_idioms text idioms)) = text"
    using True by (simp add: split_sentence_with_idioms_def)
  then show ?thesis by blast
next
  case False
  from assms have "spans_from text 0 idioms" by (simp add: valid_spans_def)
  from split_loop_weave [OF this] obtain g gs where
    "length gs = length (split_loop text 0 idioms)"
    "list_all (list_all isspace) (g # gs)"
    "weave (g # gs) (map content (split_loop text 0 idioms)) = text"
    by auto
  with False have "length (g # gs) = Suc (length (split_sentence_with_idioms text idioms)) \<and>
        list_all (list_all isspace) (g # gs) \<and>
        weave (g # gs) (map content (split_sentence_with_idioms text idioms)) = text"
    by (simp add: split_sentence_with_idioms_def)
  then show ?thesis by blast
qed

text \<open>The unfolding rules that evaluate the segmenter on a concrete text.\<close>

lemmas split_eval = cake_text_def cake_spans_def split_sentence_with_idioms_def valid_spans_def
  slice_def strip_def lstrip_def rstrip_def isspace_def of_ascii_simps Let_def

text \<open>
  C9 as stated fails: in \<open>a  piece of cake\<close> two spaces separate the plain part from
  the idiom; the contents are \<open>a\<close> and \<open>piece of cake\<close>, and joined with a single
  space, or with none, they are not the text.
\<close>

theorem split_sentence_reconstruct_counterexample:
  "valid_spans cake_text cake_spans \<and>
   map content (split_sentence_with_idioms cake_text cake_spans) =
     [of_ascii ''a'', of_ascii ''piece of cake''] \<and>
   rejoin [True] (map content (split_sentence_with_idioms cake_text cake_spans)) \<noteq> cake_text \<and>
   rejoin [False] (map content (split_sentence_with_idioms cake_text cake_spans)) \<noteq> cake_text"
  by (simp add: split_eval)

text \<open>The amended C9 at the same text and span.\<close>

theorem split_sentence_reconstructs_modulo_whitespace_witness:
  "valid_spans cake_text cake_spans \<and>
   (\<exists>gaps. length gaps = Suc (length (split_sentence_with_idioms cake_text cake_spans)) \<and>
            list_all (list_all isspace) gaps \<and>
            weave gaps (map content (split_sentence_with_idioms cake_text cake_spans)) = cake_text)"
proof -
  have v: "valid_spans cake_text cake_spans" by (simp add: split_eval)
  from split_sentence_reconstructs_modulo_whitespace [OF v] v show ?thesis by blast
qed

subsection \<open>Idiom detection\<close>

text \<open>The unfolding rules that evaluate the detector on a concrete English text.\<close>

lemma basic_unicode_simps:
  "isalpha basic_unicode = basic_alpha"
  "isalnum basic_unicode = (\<lambda>c. basic_alpha c \<or> basic_numeric c)"
  "lower basic_unicode = map ascii_lower"
  "ieq basic_unicode p c = (ascii_lower p = ascii_lower c)"
  by (simp_all add: basic_unicode_def)

lemmas detect_eval =
  detect_idioms_def pattern_spans_def english_idioms_def finditer_def
  validate_idiom_context_def lit_def ws_def not_before_word_def py_split_def
  blue_objects_def cake_words_def ice_words_def slice_def
  of_ascii_simps basic_unicode_simps ascii_lower_def isspace_def basic_alpha_def
  basic_numeric_def ascii_letter_def deva_letter_def telu_letter_def Let_def


lemma detect_cake_sentence:
  "detect_idioms basic_unicode cake_sentence (of_ascii ''eng_Latn'') =
     [\<lparr> idiom = of_ascii ''piece of cake'', start = 9, stop = 22,
         original = of_ascii ''piece of cake'' \<rparr>]"
  by (simp add: cake_sentence_def detect_eval)

lemma split_cake_sentence:
  "split_sentence_with_idioms cake_sentence
     (detect_idioms basic_unicode cake_sentence (of_ascii ''eng_Latn'')) =
   [TextPart (of_ascii ''it was a''), IdiomPart (of_ascii ''piece of cake'') (of_ascii ''piece of cake'')]"
  unfolding detect_cake_sentence
  by (simp add: cake_sentence_def split_sentence_with_idioms_def slice_def strip_def lstrip_def
      rstrip_def isspace_def of_ascii_simps Let_def)



subsection \<open>Contextual mode\<close>

text \<open>Two lookups in the predefined translations, and the first call of \<open>translate\<close>.\<close>

lemma predefined_piece_of_cake:
  "predefined (of_ascii ''eng_Latn'') (of_ascii ''hin_Deva'') (of_ascii ''piece of cake'') =
     Some hindi_easy"
  by (simp add: predefined_def idiom_translations_def of_ascii_simps hindi_easy_def)

lemma predefined_cut_corners:
  "predefined (of_ascii ''eng_Latn'') (of_ascii ''hin_Deva'') (of_ascii ''cut corners'') = None"
  by (simp add: predefined_def idiom_translations_def of_ascii_simps)

lemma translate_first_call:
  "\<exists>rest. snd (translate U E text src tgt fb) =
      Primary text (normalize_lang U src) (normalize_lang U tgt) # rest"
  by (simp add: translate_def Let_def split: sum.splits option.splits)

text \<open>
  C6: for an idiom part whose canonical form has a predefined translation for the pair of
  codes, the loop body returns exactly that translation and issues no call to the engine;
  for one that has none, it returns what \<open>translate\<close> gives for the canonical form, and
  the first call is issued on the canonical form, not on the matched text.
\<close>

theorem translate_part_idiom_dispatch:
  "(predefined src tgt canonical = Some t \<longrightarrow>
      translate_part U E src tgt (IdiomPart c canonical) =
        (Inr (t, Some \<lparr> detail_original = c, detail_canonical = canonical,
                         detail_translation = t \<rparr>), [])) \<and>
   (predefined src' tgt' canonical' = None \<longrightarrow>
      translate_part U' E' src' tgt' (IdiomPart c' canonical') =
        (case translate U' E' canonical' src' tgt' True of
           (Inl e, calls) \<Rightarrow> (Inl e, calls)
         | (Inr (t', used_fallback), calls) \<Rightarrow>
             (Inr (t', Some \<lparr> detail_original = c', detail_canonical = canonical',
                              detail_translation = t' \<rparr>), calls)) \<and>
      (\<exists>rest. snd (translate_part U' E' src' tgt' (IdiomPart c' canonical')) =
         Primary canonical' (normalize_lang U' src') (normalize_lang U' tgt') # rest))"
proof (intro conjI impI)
  assume "predefined src tgt canonical = Some t"
  then show "translate_part U E src tgt (IdiomPart c canonical) =
        (Inr (t, Some \<lparr> detail_original = c, detail_canonical = canonical,
                         detail_translation = t \<rparr>), [])"
    by (simp add: translate_part_def)
next
  assume "predefined src' tgt' canonical' = None"
  then show "translate_part U' E' src' tgt' (IdiomPart c' canonical') =
        (case translate U' E' canonical' src' tgt' True of
           (Inl e, calls) \<Rightarrow> (Inl e, calls)
         | (Inr (t', used_fallback), calls) \<Rightarrow>
             (Inr (t', Some \<lparr> detail_original = c', detail_canonical = canonical',
                              detail_translation = t' \<rparr>), calls))"
    by (simp add: translate_part_def)
next
  assume n: "predefined src' tgt' canonical' = None"
  obtain rest where r: "snd (translate U' E' canonical' src' tgt' True) =
      Primary canonical' (normalize_lang U' src') (normalize_lang U' tgt') # rest"
    using translate_first_call by blast
  have "snd (translate_part U' E' src' tgt' (IdiomPart c' canonical')) =
      snd (translate U' E' canonical' src' tgt' True)"
    using n by (simp add: translate_part_def split: prod.splits sum.splits)
  with r show "\<exists>rest. snd (translate_part U' E' src' tgt' (IdiomPart c' canonical')) =
         Primary canonical' (normalize_lang U' src') (normalize_lang U' tgt') # rest"
    by simp
qed

text \<open>C6 at two concrete idiom parts, one with and one without a predefined translation.\<close>

theorem translate_part_idiom_dispatch_witness:
  "translate_part basic_unicode echo_engine (of_ascii ''eng_Latn'') (of_ascii ''hin_Deva'')
       (IdiomPart (of_ascii ''Pieces of cake'') (of_ascii ''piece of cake'')) =
     (Inr (hindi_easy,
           Some \<lparr> detail_original = of_ascii ''Pieces of cake'',
                  detail_canonical = of_ascii ''piece of cake'',
                  detail_translation = hindi_easy \<rparr>), []) \<and>
   (\<exists>rest. snd (translate_part basic_unicode echo_engine (of_ascii ''eng_Latn'')
                  (of_ascii ''hin_Deva'')
                  (IdiomPart (of_ascii ''cutting corners'') (of_ascii ''cut corners''))) =
      Primary (of_ascii ''cut corners'')
        (normalize_lang basic_unicode (of_ascii ''eng_Latn''))
        (normalize_lang basic_unicode (of_ascii ''hin_Deva'')) # rest)"
  using translate_part_idiom_dispatch [of "of_ascii ''eng_Latn''" "of_ascii ''hin_Deva''"
      "of_ascii ''piece of cake''" hindi_easy basic_unicode echo_engine "of_ascii ''Pieces of cake''"
      "of_ascii ''eng_Latn''" "of_ascii ''hin_Deva''" "of_ascii ''cut corners''"
      basic_unicode echo_engine "of_ascii ''cutting corners''"]
    predefined_piece_of_cake predefined_cut_corners
  by blast

text \<open>A part whose translation fails makes the loop fail.\<close>

lemma translate_parts_failure:
  "p \<in> set parts \<Longrightarrow> fst (translate_part U E src tgt p) = Inl e \<Longrightarrow>
   \<exists>e'. fst (translate_parts U E src tgt parts) = Inl e'"
proof (induction parts)
  case Nil
  then show ?case by simp
next
  case (Cons q rest)
  show ?case
  proof (cases "fst (translate_part U E src tgt q)")
    case (Inl e1)
    then show ?thesis by (cases "translate_part U E src tgt q") auto
  next
    case (Inr r)
    with Cons.prems have "p \<in> set rest" by auto
    from Cons.IH [OF this Cons.prems(2)] obtain e' where
      "fst (translate_parts U E src tgt rest) = Inl e'" by blast
    with Inr show ?thesis
      by (cases "translate_part U E src tgt q"; cases "translate_parts U E src tgt rest") auto
  qed
qed

text \<open>
  C5, amended: in contextual mode, when idioms were detected and the translation of some
  part fails, the whole request fails: \<open>translate_with_context\<close> raises and returns no
  result. Nothing is substituted for the failed part, and an idiom detail has no field
  for a strategy.
\<close>

theorem translate_with_context_failure_aborts:
  assumes "detect_idioms U text src \<noteq> []"
    and "p \<in> set (split_sentence_with_idioms text (detect_idioms U text src))"
    and "fst (translate_part U E src tgt p) = Inl e"
  shows "\<exists>e'. fst (translate_with_context U E text src tgt) = Inl e'"
proof -
  from translate_parts_failure [OF assms(2) assms(3)] obtain e' where
    "fst (translate_parts U E src tgt
        (split_sentence_with_idioms text (detect_idioms U text src))) = Inl e'"
    by blast
  then show ?thesis using assms(1)
    by (cases "translate_parts U E src tgt
        (split_sentence_with_idioms text (detect_idioms U text src))")
      (auto simp add: translate_with_context_def Let_def)
qed

text \<open>The plain part \<open>it was a\<close> on the engine that fails on it.\<close>

lemma flaky_text_part:
  "translate_part basic_unicode flaky_engine (of_ascii ''eng_Latn'') (of_ascii ''hin_Deva'')
     (TextPart (of_ascii ''it was a'')) =
   (Inl CapabilityFailure,
    [Primary (of_ascii ''it was a'') (of_ascii ''eng_Latn'') (of_ascii ''hin_Deva'')])"
  by (simp add: translate_part_def translate_def flaky_engine_def normalize_lang_def lang_map_def
      basic_unicode_simps of_ascii_simps ascii_lower_def Let_def)

text \<open>
  C5 as stated fails: the engine fails on the single plain part \<open>it was a\<close>; the idiom
  part has a predefined translation and needs no call, yet the request returns no result
  but the failure.
\<close>

theorem translate_with_context_failure_counterexample:
  "predefined (of_ascii ''eng_Latn'') (of_ascii ''hin_Deva'') (of_ascii ''piece of cake'') =
     Some hindi_easy \<and>
   translate_with_context basic_unicode flaky_engine cake_sentence (of_ascii ''eng_Latn'')
       (of_ascii ''hin_Deva'') =
     (Inl CapabilityFailure,
      [Primary (of_ascii ''it was a'') (of_ascii ''eng_Latn'') (of_ascii ''hin_Deva'')])"
proof -
  have "translate_with_context basic_unicode flaky_engine cake_sentence (of_ascii ''eng_Latn'')
       (of_ascii ''hin_Deva'') =
     (Inl CapabilityFailure,
      [Primary (of_ascii ''it was a'') (of_ascii ''eng_Latn'') (of_ascii ''hin_Deva'')])"
    unfolding translate_with_context_def Let_def split_cake_sentence
    unfolding detect_cake_sentence
    by (simp add: flaky_text_part)
  with predefined_piece_of_cake show ?thesis by blast
qed

text \<open>The amended C5 at the same request.\<close>

theorem translate_with_context_failure_aborts_witness:
  "detect_idioms basic_unicode cake_sentence (of_ascii ''eng_Latn'') \<noteq> [] \<and>
   fst (translate_part basic_unicode flaky_engine (of_ascii ''eng_Latn'') (of_ascii ''hin_Deva'')
          (TextPart (of_ascii ''it was a''))) = Inl CapabilityFailure \<and>
   (\<exists>e'. fst (translate_with_context basic_unicode flaky_engine cake_sentence
                 (of_ascii ''eng_Latn'') (of_ascii ''hin_Deva'')) = Inl e')"
proof -
  have a: "detect_idioms basic_unicode cake_sentence (of_ascii ''eng_Latn'') \<noteq> []"
    unfolding detect_cake_sentence by simp
  have b: "TextPart (of_ascii ''it was a'') \<in>
      set (split_sentence_with_idioms cake_sentence
            (detect_idioms basic_unicode cake_sentence (of_ascii ''eng_Latn'')))"
    unfolding split_cake_sentence by simp
  have c: "fst (translate_part basic_unicode flaky_engine (of_ascii ''eng_Latn'')
      (of_ascii ''hin_Deva'') (TextPart (of_ascii ''it was a''))) = Inl CapabilityFailure"
    by (simp add: flaky_text_part)
  from translate_with_context_failure_aborts [OF a b c] a c show ?thesis by blast
qed

end
